theory Spec2Isabelle
  imports Main
begin

section \<open>Tuple (src/lib/tuple.ts)\<close>

text \<open>
  The interface \<^verbatim>\<open>Tuple<A, B>\<close> has the two fields \<^verbatim>\<open>fst\<close> and \<^verbatim>\<open>snd\<close>; they carry the
  suffix \<open>_T\<close> here, the plain names being the projections of HOL's own pairs.

  Calling conventions are kept apart by type. A binary function \<^verbatim>\<open>(a: A, b: B) => R\<close>
  takes its two arguments at once and is a function on a HOL pair, \<open>'a \<times> 'b \<Rightarrow> 'r\<close>; a
  function taking one \<^verbatim>\<open>Tuple<A, B>\<close> is a function on the record; a staged function
  \<^verbatim>\<open>(fst: A) => (snd: B) => R\<close> is a curried HOL function.
\<close>

record ('a, 'b) Tuple =
  fst_T :: 'a
  snd_T :: 'b

text \<open>\<^verbatim>\<open>Tuple.of(a, b)\<close>: the object literal \<^verbatim>\<open>{fst: a, snd: b}\<close>.\<close>

definition Tuple_of :: "'a \<times> 'b \<Rightarrow> ('a, 'b) Tuple" where
  "Tuple_of = (\<lambda>(a, b). \<lparr>fst_T = a, snd_T = b\<rparr>)"

text \<open>\<^verbatim>\<open>Tuple.tuple(fn)\<close> returns \<^verbatim>\<open>tupled\<close>, which calls \<^verbatim>\<open>fn(tuple.fst, tuple.snd)\<close>.\<close>

definition Tuple_tuple :: "('a \<times> 'b \<Rightarrow> 'r) \<Rightarrow> ('a, 'b) Tuple \<Rightarrow> 'r" where
  "Tuple_tuple fn = (\<lambda>tuple. fn (fst_T tuple, snd_T tuple))"

text \<open>\<^verbatim>\<open>Tuple.curryTuple(fn)\<close> returns \<^verbatim>\<open>step1\<close>, which returns \<^verbatim>\<open>step2\<close>, which calls
  \<^verbatim>\<open>fn({fst, snd})\<close>.\<close>

definition Tuple_curryTuple :: "(('a, 'b) Tuple \<Rightarrow> 'r) \<Rightarrow> 'a \<Rightarrow> 'b \<Rightarrow> 'r" where
  "Tuple_curryTuple fn = (\<lambda>fst. \<lambda>snd. fn \<lparr>fst_T = fst, snd_T = snd\<rparr>)"

text \<open>\<^verbatim>\<open>Tuple.curry(fn)\<close> returns \<^verbatim>\<open>step1\<close>, which returns \<^verbatim>\<open>step2\<close>, which calls
  \<^verbatim>\<open>fn(fst, snd)\<close>.\<close>

definition Tuple_curry :: "('a \<times> 'b \<Rightarrow> 'r) \<Rightarrow> 'a \<Rightarrow> 'b \<Rightarrow> 'r" where
  "Tuple_curry fn = (\<lambda>fst. \<lambda>snd. fn (fst, snd))"


section \<open>Maybe (src/lib/maybe.ts)\<close>

subsection \<open>The two variants and their elimination\<close>

text \<open>
  The base class \<^verbatim>\<open>Maybe<A>\<close> has exactly the two subclasses \<^verbatim>\<open>Just<A>\<close> (one public
  field, the contained value) and \<^verbatim>\<open>Nothing<A>\<close> (no field): a datatype with two
  constructors. The handler object \<^verbatim>\<open>Elim<A, R>\<close> is a record whose field \<open>nothing\<close> is
  a plain value of the result type, not a thunk.
\<close>

datatype 'a Maybe = Just 'a | Nothing

record ('a, 'r) Elim =
  just :: "'a \<Rightarrow> 'r"
  nothing :: 'r

text \<open>
  Names: the functions exported by the module \<^verbatim>\<open>Maybe\<close> carry the prefix \<open>Maybe_\<close>
  (\<^verbatim>\<open>Maybe.map\<close> is \<open>Maybe_map\<close>); the instance methods of the class carry the prefix
  \<open>inst_\<close> and take the receiver \<^verbatim>\<open>this\<close> as their first argument (\<^verbatim>\<open>m.map(fn)\<close> is
  \<open>inst_map m fn\<close>). Several arguments passed in one call are a HOL tuple.
\<close>

text \<open>The method \<^verbatim>\<open>fold\<close>, overridden in both subclasses: \<^verbatim>\<open>Just\<close> returns
  \<^verbatim>\<open>match.just(this.value)\<close>, \<^verbatim>\<open>Nothing\<close> returns \<^verbatim>\<open>match.nothing\<close>.\<close>

fun inst_fold :: "'a Maybe \<Rightarrow> ('a, 'r) Elim \<Rightarrow> 'r" where
  "inst_fold (Just v) match = just match v"
| "inst_fold Nothing match = nothing match"

text \<open>The method \<^verbatim>\<open>isJust\<close>, overridden in both subclasses.\<close>

fun isJust :: "'a Maybe \<Rightarrow> bool" where
  "isJust (Just v) = True"
| "isJust Nothing = False"

text \<open>The helper \<^verbatim>\<open>id\<close> of the file.\<close>

definition id_fn :: "'a \<Rightarrow> 'a" where
  "id_fn a = a"

text \<open>\<^verbatim>\<open>Maybe.of(value)\<close> is \<^verbatim>\<open>new Just(value)\<close>; \<^verbatim>\<open>Maybe.zero()\<close> is \<^verbatim>\<open>new Nothing()\<close>.\<close>

definition Maybe_of :: "'a \<Rightarrow> 'a Maybe" where
  "Maybe_of v = Just v"

definition Maybe_zero :: "'a Maybe" where
  "Maybe_zero = Nothing"

text \<open>\<^verbatim>\<open>Maybe.fold(match)\<close> returns \<^verbatim>\<open>eliminator\<close>, which calls \<^verbatim>\<open>m.fold(match)\<close>.\<close>

definition Maybe_fold :: "('a, 'r) Elim \<Rightarrow> 'a Maybe \<Rightarrow> 'r" where
  "Maybe_fold match = (\<lambda>m. inst_fold m match)"


subsection \<open>Derived combinators\<close>

definition Maybe_map :: "('a \<Rightarrow> 'b) \<Rightarrow> 'a Maybe \<Rightarrow> 'b Maybe" where
  "Maybe_map fn = (\<lambda>ma. inst_fold ma
     \<lparr>just = (\<lambda>a. Just (fn a)),
      nothing = Maybe_zero\<rparr>)"

definition Maybe_bind :: "('a \<Rightarrow> 'b Maybe) \<Rightarrow> 'a Maybe \<Rightarrow> 'b Maybe" where
  "Maybe_bind fn = (\<lambda>ma. inst_fold ma
     \<lparr>just = (\<lambda>a. fn a),
      nothing = Maybe_zero\<rparr>)"

definition Maybe_zipWith :: "('a \<times> 'b \<Rightarrow> 'r) \<Rightarrow> 'a Maybe \<times> 'b Maybe \<Rightarrow> 'r Maybe" where
  "Maybe_zipWith fn = (\<lambda>(ma, mb). inst_fold ma
     \<lparr>just = (\<lambda>a. inst_fold mb
        \<lparr>just = (\<lambda>b. Maybe_of (fn (a, b))),
         nothing = Maybe_zero\<rparr>),
      nothing = Maybe_zero\<rparr>)"

definition Maybe_zip :: "'a Maybe \<times> 'b Maybe \<Rightarrow> ('a, 'b) Tuple Maybe" where
  "Maybe_zip = (\<lambda>(ma, mb). Maybe_zipWith Tuple_of (ma, mb))"

definition Maybe_ap :: "('a \<Rightarrow> 'b) Maybe \<times> 'a Maybe \<Rightarrow> 'b Maybe" where
  "Maybe_ap = (\<lambda>(mf, ma). inst_fold mf
     \<lparr>just = (\<lambda>f. inst_fold ma
        \<lparr>just = (\<lambda>a. Maybe_of (f a)),
         nothing = Maybe_zero\<rparr>),
      nothing = Maybe_zero\<rparr>)"

definition Maybe_or :: "'a Maybe \<times> 'a Maybe \<Rightarrow> 'a Maybe" where
  "Maybe_or = (\<lambda>(m1, m2). inst_fold m1
     \<lparr>just = (\<lambda>_. m1),
      nothing = m2\<rparr>)"

text \<open>\<^verbatim>\<open>Maybe.guard(b)\<close>: the empty object \<^verbatim>\<open>{}\<close> is the unit value.\<close>

definition Maybe_guard :: "bool \<Rightarrow> unit Maybe" where
  "Maybe_guard b = (if b then Maybe_of () else Maybe_zero)"


subsection \<open>Instance methods\<close>

definition inst_map :: "'a Maybe \<Rightarrow> ('a \<Rightarrow> 'b) \<Rightarrow> 'b Maybe" where
  "inst_map this fn = Maybe_map fn this"

definition inst_zip :: "'a Maybe \<Rightarrow> 'b Maybe \<Rightarrow> ('a, 'b) Tuple Maybe" where
  "inst_zip this mb = Maybe_zip (this, mb)"

definition inst_zipWith :: "'a Maybe \<Rightarrow> 'b Maybe \<times> ('a \<times> 'b \<Rightarrow> 'r) \<Rightarrow> 'r Maybe" where
  "inst_zipWith this = (\<lambda>(mb, fn). Maybe_zipWith fn (this, mb))"

definition inst_bind :: "'a Maybe \<Rightarrow> ('a \<Rightarrow> 'b Maybe) \<Rightarrow> 'b Maybe" where
  "inst_bind this fn = Maybe_bind fn this"

definition inst_or :: "'a Maybe \<Rightarrow> 'a Maybe \<Rightarrow> 'a Maybe" where
  "inst_or this m = Maybe_or (this, m)"

definition orElse :: "'a Maybe \<Rightarrow> 'a \<Rightarrow> 'a" where
  "orElse this def = inst_fold this \<lparr>just = id_fn, nothing = def\<rparr>"


subsection \<open>The variadic scans\<close>

text \<open>
  \<^verbatim>\<open>Array.prototype.forEach\<close> calls the callback on every element in index order and
  discards what the callback returns; its own result is \<^verbatim>\<open>undefined\<close>, the unit value.
\<close>

fun forEach :: "'a list \<Rightarrow> ('a \<Rightarrow> 'b) \<Rightarrow> unit" where
  "forEach [] callback = ()"
| "forEach (v # vs) callback = (let _ = callback v in forEach vs callback)"

text \<open>
  \<^verbatim>\<open>Maybe.leftmost(...maybes)\<close>. The arrow function passed to \<^verbatim>\<open>forEach\<close> returns \<^verbatim>\<open>v\<close>
  when \<^verbatim>\<open>v.isJust()\<close> and \<^verbatim>\<open>undefined\<close> otherwise (an \<open>option\<close>); that \<^verbatim>\<open>return\<close> leaves
  the arrow function only. The statement after the \<^verbatim>\<open>forEach\<close> call is
  \<^verbatim>\<open>return zero<A>()\<close>.
\<close>

definition Maybe_leftmost :: "'a Maybe list \<Rightarrow> 'a Maybe" where
  "Maybe_leftmost maybes =
     (let _ = forEach maybes (\<lambda>v. if isJust v then Some v else None)
      in Maybe_zero)"

text \<open>
  Reading \<^verbatim>\<open>maybes[i]\<close>: the element when \<open>0 \<le> i < length\<close>, and \<^verbatim>\<open>undefined\<close> (\<open>None\<close>)
  at every other index, negative ones included. Calling a method on \<^verbatim>\<open>undefined\<close>
  throws a \<^verbatim>\<open>TypeError\<close>.
\<close>

datatype error = TypeError

definition index :: "'a list \<Rightarrow> int \<Rightarrow> 'a option" where
  "index xs i = (if 0 \<le> i \<and> i < int (length xs) then Some (xs ! nat i) else None)"

text \<open>
  The loop of \<^verbatim>\<open>Maybe.rightmost\<close>, entered with the current \<^verbatim>\<open>i\<close>:
  \<^verbatim>\<open>for (...; 0 >= i; i--) { var x = maybes[i]; if (x.isJust()) { return x; } }\<close>
  followed by \<^verbatim>\<open>return zero<A>()\<close>.
\<close>

function rightmost_loop :: "'a Maybe list \<Rightarrow> int \<Rightarrow> error + 'a Maybe" where
  "rightmost_loop maybes i =
     (if 0 \<ge> i then
        (case index maybes i of
           None \<Rightarrow> Inl TypeError
         | Some x \<Rightarrow> if isJust x then Inr x else rightmost_loop maybes (i - 1))
      else Inr Maybe_zero)"
  by pat_completeness auto
termination
  by (relation "measure (\<lambda>(maybes, i). nat (i + 1))")
     (auto simp: index_def split: if_splits)

text \<open>\<^verbatim>\<open>Maybe.rightmost(...maybes)\<close>: the loop starts at \<^verbatim>\<open>i = maybes.length\<close>.\<close>

definition Maybe_rightmost :: "'a Maybe list \<Rightarrow> error + 'a Maybe" where
  "Maybe_rightmost maybes = rightmost_loop maybes (int (length maybes))"


subsection \<open>Reference definitions for the scans and a call log\<close>

text \<open>
  The contract of \<^verbatim>\<open>leftmost\<close> in the words of the specification: scan the sequence left to
  right and return the first \<open>Just\<close> encountered, or \<open>Nothing\<close> if none are \<open>Just\<close>
  (the empty sequence included).
\<close>

fun leftmost_spec :: "'a Maybe list \<Rightarrow> 'a Maybe" where
  "leftmost_spec [] = Nothing"
| "leftmost_spec (m # ms) = (if isJust m then m else leftmost_spec ms)"

text \<open>
  The contract of \<^verbatim>\<open>rightmost\<close> in the words of the specification: the mirror of
  \<^verbatim>\<open>leftmost\<close>, scanning right to left and returning the first \<open>Just\<close> found from the end.
\<close>

definition rightmost_spec :: "'a Maybe list \<Rightarrow> 'a Maybe" where
  "rightmost_spec maybes = leftmost_spec (rev maybes)"

text \<open>
  The body of \<^verbatim>\<open>Maybe.zipWith\<close> once more, with every call of \<^verbatim>\<open>fn\<close> written to a log: the
  result is paired with the list of argument pairs \<^verbatim>\<open>fn\<close> was called on. The log of a branch
  that does not call \<^verbatim>\<open>fn\<close> is empty.
\<close>

definition zipWith_calls ::
  "('a \<times> 'b \<Rightarrow> 'r) \<Rightarrow> 'a Maybe \<times> 'b Maybe \<Rightarrow> ('a \<times> 'b) list \<times> 'r Maybe" where
  "zipWith_calls fn = (\<lambda>(ma, mb). inst_fold ma
     \<lparr>just = (\<lambda>a. inst_fold mb
        \<lparr>just = (\<lambda>b. ([(a, b)], Maybe_of (fn (a, b)))),
         nothing = ([], Maybe_zero)\<rparr>),
      nothing = ([], Maybe_zero)\<rparr>)"


section \<open>Properties\<close>

subsection \<open>Elimination on the two variants\<close>

lemmas Maybe_ctor_defs = Maybe_of_def Maybe_zero_def

lemma Maybe_map_simps:
  "Maybe_map fn (Just a) = Just (fn a)"
  "Maybe_map fn Nothing = Nothing"
  by (simp_all add: Maybe_map_def Maybe_ctor_defs)

lemma Maybe_bind_simps:
  "Maybe_bind fn (Just a) = fn a"
  "Maybe_bind fn Nothing = Nothing"
  by (simp_all add: Maybe_bind_def Maybe_ctor_defs)

lemma Maybe_zipWith_simps:
  "Maybe_zipWith fn (Just a, Just b) = Just (fn (a, b))"
  "Maybe_zipWith fn (Nothing, mb) = Nothing"
  "Maybe_zipWith fn (ma, Nothing) = Nothing"
proof -
  show "Maybe_zipWith fn (Just a, Just b) = Just (fn (a, b))"
    by (simp add: Maybe_zipWith_def Maybe_ctor_defs)
  show "Maybe_zipWith fn (Nothing, mb) = Nothing"
    by (simp add: Maybe_zipWith_def Maybe_ctor_defs)
  show "Maybe_zipWith fn (ma, Nothing) = Nothing"
    by (cases ma) (simp_all add: Maybe_zipWith_def Maybe_ctor_defs)
qed

lemma Maybe_ap_simps:
  "Maybe_ap (Just f, Just a) = Just (f a)"
  "Maybe_ap (Nothing, ma) = Nothing"
  "Maybe_ap (mf, Nothing) = Nothing"
proof -
  show "Maybe_ap (Just f, Just a) = Just (f a)"
    by (simp add: Maybe_ap_def Maybe_ctor_defs)
  show "Maybe_ap (Nothing, ma) = Nothing"
    by (simp add: Maybe_ap_def Maybe_ctor_defs)
  show "Maybe_ap (mf, Nothing) = Nothing"
    by (cases mf) (simp_all add: Maybe_ap_def Maybe_ctor_defs)
qed

lemma Maybe_or_simps:
  "Maybe_or (Just a, m2) = Just a"
  "Maybe_or (Nothing, m2) = m2"
  by (simp_all add: Maybe_or_def)

lemma zipWith_calls_simps:
  "zipWith_calls fn (Just a, Just b) = ([(a, b)], Just (fn (a, b)))"
  "zipWith_calls fn (Nothing, mb) = ([], Nothing)"
  "zipWith_calls fn (ma, Nothing) = ([], Nothing)"
proof -
  show "zipWith_calls fn (Just a, Just b) = ([(a, b)], Just (fn (a, b)))"
    by (simp add: zipWith_calls_def Maybe_ctor_defs)
  show "zipWith_calls fn (Nothing, mb) = ([], Nothing)"
    by (simp add: zipWith_calls_def Maybe_ctor_defs)
  show "zipWith_calls fn (ma, Nothing) = ([], Nothing)"
    by (cases ma) (simp_all add: zipWith_calls_def Maybe_ctor_defs)
qed

text \<open>The logged body returns what \<open>Maybe_zipWith\<close> returns.\<close>

lemma zipWith_calls_result: "snd (zipWith_calls fn (ma, mb)) = Maybe_zipWith fn (ma, mb)"
proof (cases ma)
  case (Just a)
  then show ?thesis
    by (cases mb) (simp_all add: zipWith_calls_simps Maybe_zipWith_simps)
next
  case Nothing
  then show ?thesis
    by (simp add: zipWith_calls_simps Maybe_zipWith_simps)
qed


subsection \<open>The scans as the code runs them\<close>

text \<open>\<^verbatim>\<open>forEach\<close> hands nothing back, so \<open>Maybe_leftmost\<close> ends in its last statement
  whatever the list holds.\<close>

lemma leftmost_always_Nothing: "Maybe_leftmost maybes = Nothing"
  by (simp add: Maybe_leftmost_def Maybe_zero_def)

text \<open>With a positive start index the loop condition \<^verbatim>\<open>0 >= i\<close> fails at once.\<close>

lemma rightmost_loop_positive: "0 < i \<Longrightarrow> rightmost_loop maybes i = Inr Nothing"
  by (simp add: Maybe_zero_def)

lemma rightmost_nonempty: "maybes \<noteq> [] \<Longrightarrow> Maybe_rightmost maybes = Inr Nothing"
  unfolding Maybe_rightmost_def
  by (rule rightmost_loop_positive) simp

text \<open>The reference scans do find the values.\<close>

lemma leftmost_spec_Nothing_iff:
  "leftmost_spec maybes = Nothing \<longleftrightarrow> (\<forall>m \<in> set maybes. \<not> isJust m)"
proof (induction maybes)
  case Nil
  show ?case by simp
next
  case (Cons m ms)
  show ?case
  proof (cases m)
    case (Just a)
    then show ?thesis by simp
  next
    case Nothing
    with Cons.IH show ?thesis by simp
  qed
qed

lemma leftmost_spec_first:
  "\<forall>m \<in> set pre. \<not> isJust m \<Longrightarrow> leftmost_spec (pre @ Just a # post) = Just a"
  by (induction pre) simp_all

lemma rightmost_spec_last:
  "\<forall>m \<in> set post. \<not> isJust m \<Longrightarrow> rightmost_spec (pre @ Just a # post) = Just a"
  unfolding rightmost_spec_def
  using leftmost_spec_first [of "rev post" a "rev pre"] by simp


subsection \<open>Claims on the scans\<close>

text \<open>
  C1. The claim: for every sequence of Maybe values, \<^verbatim>\<open>leftmost\<close> returns the first \<open>Just\<close>
  met scanning left to right, and \<open>Nothing\<close> if no element is \<open>Just\<close>; in particular
  \<^verbatim>\<open>leftmost([Nothing, Just(7), Just(9)]) = Just(7)\<close>.

  The code at that input: the reference scan finds \<open>Just 7\<close>, while \<open>Maybe_leftmost\<close>
  returns \<open>Nothing\<close>, the value found being returned from the \<^verbatim>\<open>forEach\<close> callback only.
\<close>

theorem leftmost_loses_first_Just:
  "leftmost_spec [Nothing, Just (7::int), Just 9] = Just 7
   \<and> Maybe_leftmost [Nothing, Just (7::int), Just 9] = Nothing
   \<and> Maybe_leftmost [Nothing, Just (7::int), Just 9] \<noteq> Just 7"
  by (simp add: Maybe_leftmost_def Maybe_zero_def)

text \<open>
  C2. The claim: for every sequence of Maybe values, \<^verbatim>\<open>rightmost\<close> returns the first \<open>Just\<close>
  met scanning right to left, and \<open>Nothing\<close> if no element is \<open>Just\<close> or the sequence is
  empty; in particular \<^verbatim>\<open>rightmost([Just(7), Just(9), Nothing]) = Just(9)\<close>.

  The code at that input: the reference scan finds \<open>Just 9\<close>, while \<open>Maybe_rightmost\<close>
  returns \<open>Nothing\<close> without raising, its loop condition \<^verbatim>\<open>0 >= i\<close> being false at the start
  index 3.
\<close>

theorem rightmost_loses_last_Just:
  "rightmost_spec [Just (7::int), Just 9, Nothing] = Just 9
   \<and> Maybe_rightmost [Just (7::int), Just 9, Nothing] = Inr Nothing
   \<and> Maybe_rightmost [Just (7::int), Just 9, Nothing] \<noteq> Inr (Just 9)"
proof -
  have spec: "rightmost_spec [Just (7::int), Just 9, Nothing] = Just 9"
    by (simp add: rightmost_spec_def)
  have code: "Maybe_rightmost [Just (7::int), Just 9, Nothing] = Inr Nothing"
    by (simp add: Maybe_rightmost_def Maybe_zero_def)
  from spec code show ?thesis by simp
qed

text \<open>
  C3. The claim: every derived combinator (map, bind, zip, zipWith, ap, or, orElse, leftmost,
  rightmost, guard) is total and never throws on well-formed Maybe inputs, the empty
  variadic sequence of \<^verbatim>\<open>leftmost\<close> and \<^verbatim>\<open>rightmost\<close> included.

  The code on the empty sequence: \<^verbatim>\<open>rightmost()\<close> enters its loop with \<^verbatim>\<open>i = 0\<close>, reads
  \<^verbatim>\<open>maybes[0]\<close> of an empty array and calls \<^verbatim>\<open>isJust\<close> on \<^verbatim>\<open>undefined\<close>: a \<^verbatim>\<open>TypeError\<close>.
\<close>

theorem rightmost_empty_throws:
  "Maybe_rightmost ([] :: 'a Maybe list) = Inl TypeError"
  by (simp add: Maybe_rightmost_def index_def)


subsection \<open>Claims on the combinators\<close>

text \<open>
  C4. For all Maybe values \<open>ma\<close>, \<open>mb\<close> and every binary function \<open>fn\<close>, \<^verbatim>\<open>zipWith(fn)(ma, mb)\<close>
  is \<open>Just (fn (a, b))\<close> when \<open>ma = Just a\<close> and \<open>mb = Just b\<close>, and \<open>Nothing\<close> whenever
  either input is \<open>Nothing\<close>; the result is a \<open>Just\<close> exactly when both inputs are. The
  function \<open>fn\<close> is called only in the both-present case: the call log holds the one pair
  \<open>(a, b)\<close> there and is empty otherwise, and the logged body returns the same result.
\<close>

theorem zipWith_both_present:
  "Maybe_zipWith fn (Just a, Just b) = Just (fn (a, b))
   \<and> Maybe_zipWith fn (Nothing, mb) = Nothing
   \<and> Maybe_zipWith fn (ma, Nothing) = Nothing
   \<and> isJust (Maybe_zipWith fn (ma, mb)) = (isJust ma \<and> isJust mb)
   \<and> zipWith_calls fn (Just a, Just b) = ([(a, b)], Just (fn (a, b)))
   \<and> fst (zipWith_calls fn (Nothing, mb)) = []
   \<and> fst (zipWith_calls fn (ma, Nothing)) = []
   \<and> snd (zipWith_calls fn (ma, mb)) = Maybe_zipWith fn (ma, mb)"
proof -
  have both: "isJust (Maybe_zipWith fn (ma, mb)) = (isJust ma \<and> isJust mb)"
  proof (cases ma)
    case (Just a')
    then show ?thesis by (cases mb) (simp_all add: Maybe_zipWith_simps)
  next
    case Nothing
    then show ?thesis by (simp add: Maybe_zipWith_simps)
  qed
  show ?thesis
    by (simp add: Maybe_zipWith_simps zipWith_calls_simps zipWith_calls_result both)
qed

theorem zipWith_both_present_witness:
  "Maybe_zipWith (\<lambda>(x, y). x + y) (Just (2::int), Just (3::int)) = Just 5
   \<and> Maybe_zipWith (\<lambda>(x, y). x + y) (Nothing, Just (3::int)) = (Nothing :: int Maybe)
   \<and> Maybe_zipWith (\<lambda>(x, y). x + y) (Just (2::int), Nothing) = (Nothing :: int Maybe)
   \<and> zipWith_calls (\<lambda>(x, y). x + y) (Just (2::int), Just (3::int)) = ([(2, 3)], Just 5)
   \<and> fst (zipWith_calls (\<lambda>(x, y). x + y) (Just (2::int), (Nothing :: int Maybe))) = []"
  using zipWith_both_present
    [where fn = "\<lambda>(x, y). x + y" and a = "2::int" and b = "3::int"
       and ma = "Just (2::int)" and mb = "Just (3::int)"]
    zipWith_both_present
    [where fn = "\<lambda>(x, y). x + y" and a = "2::int" and b = "3::int"
       and ma = "Just (2::int)" and mb = "Nothing :: int Maybe"]
  by simp

text \<open>
  C5. The monad identity laws of \<^verbatim>\<open>bind\<close>: \<^verbatim>\<open>bind(fn)(of(a)) = fn(a)\<close> for every value \<open>a\<close> and
  every \<open>fn\<close> (left identity), and \<^verbatim>\<open>bind(of)(m) = m\<close> for every \<open>m\<close> (right identity).
\<close>

theorem bind_identity_laws:
  "Maybe_bind fn (Maybe_of a) = fn a \<and> Maybe_bind Maybe_of m = m"
proof
  show "Maybe_bind fn (Maybe_of a) = fn a"
    by (simp add: Maybe_of_def Maybe_bind_simps)
next
  show "Maybe_bind Maybe_of m = m"
    by (cases m) (simp_all add: Maybe_bind_simps Maybe_of_def)
qed

theorem bind_identity_laws_witness:
  "Maybe_bind (\<lambda>x. if x = 0 then Nothing else Just (10 div x)) (Maybe_of (5::int)) = Just 2
   \<and> Maybe_bind Maybe_of (Just (5::int)) = Just 5"
  using bind_identity_laws
    [of "\<lambda>x. if x = 0 then Nothing else Just (10 div x)" "5::int" "Just (5::int)"]
  by simp

text \<open>
  C6. The functor laws of \<^verbatim>\<open>map\<close>: \<^verbatim>\<open>map(id)\<close> is the identity on every Maybe value (in
  particular \<^verbatim>\<open>map(id)(of(a)) = of(a)\<close>), \<^verbatim>\<open>map(g \<circ> f) = map(g) \<circ> map(f)\<close> for all functions
  \<open>f\<close>, \<open>g\<close>, and \<^verbatim>\<open>map(f)(zero()) = zero()\<close> for every \<open>f\<close>.
\<close>

theorem map_functor_laws:
  fixes m :: "'a Maybe" and a :: 'a and f :: "'a \<Rightarrow> 'b" and g :: "'b \<Rightarrow> 'c"
  shows "Maybe_map id_fn m = m
   \<and> Maybe_map id_fn = (id :: 'a Maybe \<Rightarrow> 'a Maybe)
   \<and> Maybe_map id_fn (Maybe_of a) = Maybe_of a
   \<and> Maybe_map (g \<circ> f) = Maybe_map g \<circ> Maybe_map f
   \<and> Maybe_map f Maybe_zero = Maybe_zero"
proof -
  have ident: "Maybe_map id_fn x = x" for x :: "'a Maybe"
    by (cases x) (simp_all add: Maybe_map_simps id_fn_def)
  have comp: "Maybe_map (g \<circ> f) = Maybe_map g \<circ> Maybe_map f"
  proof
    fix x :: "'a Maybe"
    show "Maybe_map (g \<circ> f) x = (Maybe_map g \<circ> Maybe_map f) x"
      by (cases x) (simp_all add: Maybe_map_simps)
  qed
  have zero: "Maybe_map f Maybe_zero = Maybe_zero"
    by (simp add: Maybe_zero_def Maybe_map_simps)
  have "Maybe_map id_fn = (id :: 'a Maybe \<Rightarrow> 'a Maybe)"
    by (rule ext) (simp add: ident)
  with ident comp zero show ?thesis by simp
qed

theorem map_functor_laws_witness:
  "Maybe_map id_fn (Just (4::int)) = Just 4
   \<and> Maybe_map ((\<lambda>y. y * 2) \<circ> (\<lambda>x. x + 1)) (Just (4::int)) = Just (10::int)
   \<and> (Maybe_map (\<lambda>y. y * 2) \<circ> Maybe_map (\<lambda>x. x + 1)) (Just (4::int)) = Just (10::int)
   \<and> Maybe_map (\<lambda>x. x + 1) (Maybe_zero :: int Maybe) = (Maybe_zero :: int Maybe)"
  using map_functor_laws
    [where m = "Just (4::int)" and a = "4::int" and g = "\<lambda>y::int. y * 2"
       and f = "\<lambda>x::int. x + 1"]
  by (simp add: Maybe_map_simps Maybe_ctor_defs id_fn_def)

text \<open>
  C7. Each instance method is the corresponding free function applied with the receiver as
  the first argument: \<^verbatim>\<open>m.map(fn) = Maybe.map(fn)(m)\<close>, \<^verbatim>\<open>m.zip(mb) = Maybe.zip(m, mb)\<close>,
  \<^verbatim>\<open>m.zipWith(mb, fn) = Maybe.zipWith(fn)(m, mb)\<close>, \<^verbatim>\<open>m.bind(fn) = Maybe.bind(fn)(m)\<close> and
  \<^verbatim>\<open>m.or(m2) = Maybe.or(m, m2)\<close>, for every receiver \<open>m\<close> and all arguments.
\<close>

theorem instance_methods_delegate:
  "inst_map m fn = Maybe_map fn m
   \<and> inst_zip m mb = Maybe_zip (m, mb)
   \<and> inst_zipWith m (mb, fn2) = Maybe_zipWith fn2 (m, mb)
   \<and> inst_bind m fnb = Maybe_bind fnb m
   \<and> inst_or m m2 = Maybe_or (m, m2)"
  unfolding inst_map_def inst_zip_def inst_zipWith_def inst_bind_def inst_or_def
  by simp

theorem instance_methods_delegate_witness:
  "inst_map (Just (4::int)) (\<lambda>x. x + 1) = Just (5::int)
   \<and> inst_zip (Just (4::int)) (Just ''a'') = Just (Tuple_of (4, ''a''))
   \<and> inst_zipWith (Just (4::int)) (Just ''a'', \<lambda>(x, s). x + int (length s)) = Just 5
   \<and> inst_bind (Just (4::int)) (\<lambda>x. Just (x - 1)) = Just (3::int)
   \<and> inst_or (Just (4::int)) (Just 2) = Just 4"
  using instance_methods_delegate
    [where m = "Just (4::int)" and fn = "\<lambda>x::int. x + 1" and mb = "Just ''a''"
       and ?fn2.0 = "\<lambda>(x::int, s::string). x + int (length s)"
       and fnb = "\<lambda>x::int. Just (x - 1)" and ?m2.0 = "Just (2::int)"]
  by (simp add: Maybe_map_simps Maybe_bind_simps Maybe_zipWith_simps Maybe_or_simps
      Maybe_zip_def)

text \<open>
  C8. For all \<open>m1\<close>, \<open>m2\<close>, \<^verbatim>\<open>or(m1, m2)\<close> returns \<open>m1\<close> itself when \<open>m1\<close> is a \<open>Just\<close> and
  otherwise returns \<open>m2\<close> unchanged; in particular \<^verbatim>\<open>or(Just(1), Just(2)) = Just(1)\<close>,
  \<^verbatim>\<open>or(Nothing, Just(2)) = Just(2)\<close> and \<^verbatim>\<open>or(Nothing, Nothing) = Nothing\<close>.
\<close>

theorem or_first_present:
  fixes m1 m2 :: "'a Maybe"
  shows "Maybe_or (m1, m2) = (if isJust m1 then m1 else m2)
   \<and> Maybe_or (Just (1::int), Just 2) = Just 1
   \<and> Maybe_or (Nothing, Just (2::int)) = Just 2
   \<and> Maybe_or (Nothing, Nothing) = (Nothing :: 'a Maybe)"
proof -
  have "Maybe_or (m1, m2) = (if isJust m1 then m1 else m2)"
  proof (cases m1)
    case (Just a)
    then show ?thesis by (simp add: Maybe_or_simps)
  next
    case Nothing
    then show ?thesis by (simp add: Maybe_or_simps)
  qed
  then show ?thesis by (simp add: Maybe_or_simps)
qed

theorem or_first_present_witness:
  "Maybe_or (Just ''x'', Nothing) = Just ''x''
   \<and> Maybe_or (Nothing, Just ''y'') = Just ''y''"
  using or_first_present [of "Just ''x''" "Nothing"]
    or_first_present [of "Nothing" "Just ''y''"]
  by simp

text \<open>
  C9. The currying helpers of Tuple round-trip: \<^verbatim>\<open>tuple(fn)(Tuple.of(a, b)) = fn(a, b)\<close>,
  \<^verbatim>\<open>curry(fn)(a)(b) = fn(a, b)\<close> and \<^verbatim>\<open>curryTuple(tuple(fn))(a)(b) = fn(a, b)\<close> for all values
  \<open>a\<close>, \<open>b\<close> and every binary function \<open>fn\<close>; hence \<^verbatim>\<open>curry(fn)\<close> and \<^verbatim>\<open>curryTuple(tuple(fn))\<close>
  are the same function.
\<close>

theorem tuple_curry_roundtrip:
  "Tuple_tuple fn (Tuple_of (a, b)) = fn (a, b)
   \<and> Tuple_curry fn a b = fn (a, b)
   \<and> Tuple_curryTuple (Tuple_tuple fn) a b = fn (a, b)
   \<and> Tuple_curry fn = Tuple_curryTuple (Tuple_tuple fn)"
proof -
  have t: "Tuple_tuple fn (Tuple_of (a, b)) = fn (a, b)"
    by (simp add: Tuple_tuple_def Tuple_of_def)
  have c: "Tuple_curry fn x y = fn (x, y)" for x y
    by (simp add: Tuple_curry_def)
  have ct: "Tuple_curryTuple (Tuple_tuple fn) x y = fn (x, y)" for x y
    by (simp add: Tuple_curryTuple_def Tuple_tuple_def)
  have "Tuple_curry fn = Tuple_curryTuple (Tuple_tuple fn)"
  proof (rule ext, rule ext)
    fix x y
    show "Tuple_curry fn x y = Tuple_curryTuple (Tuple_tuple fn) x y"
      by (simp only: c ct)
  qed
  with t c ct show ?thesis by simp
qed

theorem tuple_curry_roundtrip_witness:
  "Tuple_tuple (\<lambda>(x, y). x - y) (Tuple_of (10::int, 3::int)) = 7
   \<and> Tuple_curry (\<lambda>(x, y). x - y) (10::int) (3::int) = 7
   \<and> Tuple_curryTuple (Tuple_tuple (\<lambda>(x, y). x - y)) (10::int) (3::int) = 7"
  using tuple_curry_roundtrip [of "\<lambda>(x, y). x - y" "10::int" "3::int"]
  by simp

text \<open>
  C10. Applicative application is \<^verbatim>\<open>zipWith\<close> at function application: for every \<open>mf\<close> and
  \<open>ma\<close>, \<^verbatim>\<open>ap(mf, ma) = zipWith((f, a) => f(a))(mf, ma)\<close>; both are \<open>Just (f a)\<close> exactly when
  \<open>mf = Just f\<close> and \<open>ma = Just a\<close>, and \<open>Nothing\<close> otherwise.
\<close>

theorem ap_is_zipWith_apply:
  "Maybe_ap (mf, ma) = Maybe_zipWith (\<lambda>(f, a). f a) (mf, ma)
   \<and> Maybe_ap (mf, ma) =
       (case mf of
          Just f \<Rightarrow> (case ma of Just a \<Rightarrow> Just (f a) | Nothing \<Rightarrow> Nothing)
        | Nothing \<Rightarrow> Nothing)
   \<and> isJust (Maybe_ap (mf, ma)) = (isJust mf \<and> isJust ma)"
proof (cases mf)
  case mf: (Just f)
  show ?thesis
  proof (cases ma)
    case (Just a)
    with mf show ?thesis by (simp add: Maybe_ap_simps Maybe_zipWith_simps)
  next
    case Nothing
    with mf show ?thesis by (simp add: Maybe_ap_simps Maybe_zipWith_simps)
  qed
next
  case Nothing
  then show ?thesis by (simp add: Maybe_ap_simps Maybe_zipWith_simps)
qed

theorem ap_is_zipWith_apply_witness:
  "Maybe_ap (Just (\<lambda>x. x + 1), Just (4::int)) = Just 5
   \<and> Maybe_zipWith (\<lambda>(f, a). f a) (Just (\<lambda>x. x + 1), Just (4::int)) = Just 5
   \<and> Maybe_ap (Nothing :: (int \<Rightarrow> int) Maybe, Just (4::int)) = Nothing"
  using ap_is_zipWith_apply [of "Just (\<lambda>x::int. x + 1)" "Just (4::int)"]
    ap_is_zipWith_apply [of "Nothing :: (int \<Rightarrow> int) Maybe" "Just (4::int)"]
  by (simp add: Maybe_zipWith_simps)

end
